theory Spec2Isabelle
  imports Complex_Main "HOL-Library.Char_ord" "HOL-Library.List_Lexorder" "HOL-Library.Multiset"
begin

section \<open>Strings\<close>

text \<open>
  Python strings are modelled as \<^typ>\<open>string\<close>: lists of 8-bit characters, one character per
  code point, so the model covers the code points below 256. \<open>isspace\<close> lists the code points
  below 256 that Python's \<open>str.isspace\<close> accepts; \<open>strip\<close> is \<open>str.strip()\<close> without argument;
  \<open>lower\<close> is \<open>str.lower()\<close> on that range.
\<close>

definition isspace :: "char \<Rightarrow> bool" where
  "isspace c = ((of_char c :: nat) \<in> {9, 10, 11, 12, 13, 28, 29, 30, 31, 32, 133, 160})"

definition strip :: "string \<Rightarrow> string" where
  "strip s = rev (dropWhile isspace (rev (dropWhile isspace s)))"

definition lower_char :: "char \<Rightarrow> char" where
  "lower_char c =
     (let n = (of_char c :: nat)
      in if (65 \<le> n \<and> n \<le> 90) \<or> (192 \<le> n \<and> n \<le> 222 \<and> n \<noteq> 215)
         then char_of (n + 32) else c)"

definition lower :: "string \<Rightarrow> string" where
  "lower s = map lower_char s"

section \<open>Providers (core/llm/base.py, claude.py, openai.py, bedrock.py)\<close>

datatype provider_kind = Claude | OpenAI | Bedrock

text \<open>
  A provider object: its class, the mutable \<open>model\<close> attribute, and whether \<open>self.client\<close>
  is not \<open>None\<close> (for Bedrock: \<open>BOTO3_AVAILABLE and self.client is not None\<close>).
\<close>

record provider =
  kind :: provider_kind
  model :: string
  client :: bool

definition provider_name :: "provider \<Rightarrow> string" where
  "provider_name p = (case kind p of Claude \<Rightarrow> ''claude'' | OpenAI \<Rightarrow> ''openai'' | Bedrock \<Rightarrow> ''bedrock'')"

definition is_available :: "provider \<Rightarrow> bool" where
  "is_available p = client p"

definition DEFAULT_MODEL :: "provider_kind \<Rightarrow> string" where
  "DEFAULT_MODEL k = (case k of
       Claude \<Rightarrow> ''claude-3-5-haiku-20241022''
     | OpenAI \<Rightarrow> ''gpt-4o-mini''
     | Bedrock \<Rightarrow> ''anthropic.claude-3-5-haiku-20241022-v1:0'')"


text \<open>
  \<open>get_cheap_model\<close> is a class method of ClaudeProvider and OpenAIProvider only;
  BedrockProvider does not define it (\<open>None\<close>: the attribute is absent, which is what
  \<open>hasattr\<close> tests). \<open>get_quality_model\<close> is called on the two classes that have it.
\<close>

definition get_cheap_model :: "provider_kind \<Rightarrow> string option" where
  "get_cheap_model k = (case k of
       Claude \<Rightarrow> Some ''claude-3-5-haiku-20241022''
     | OpenAI \<Rightarrow> Some ''gpt-4o-mini''
     | Bedrock \<Rightarrow> None)"

definition ClaudeProvider_get_quality_model :: string where
  "ClaudeProvider_get_quality_model = ''claude-3-5-sonnet-20241022''"

definition OpenAIProvider_get_quality_model :: string where
  "OpenAIProvider_get_quality_model = ''gpt-4o''"


text \<open>\<open>BaseLLMProvider.validate_response\<close>.\<close>

definition validate_response :: "string \<Rightarrow> bool" where
  "validate_response response =
     (if response = [] \<or> strip response = [] then False
      else if length (strip response) < 10 then False
      else True)"

subsection \<open>The generate call and its retry loop\<close>

text \<open>
  What one call of the backend client does: it returns a completion, raises the client
  library's rate-limit error (for Bedrock a ClientError whose code is ThrottlingException),
  or raises anything else.
\<close>

datatype backend_outcome = Completion string | RateLimited | BackendFailure string

datatype pyval = PNone | PBool bool | PInt int | PFloat rat | PStr string
  | PList "pyval list" | PDict "(string \<times> pyval) list"

record api_request =
  req_model :: string
  req_prompt :: string
  req_max_tokens :: int
  req_temperature :: rat
  req_kwargs :: "(string \<times> pyval) list"

text \<open>
  The backends are a parameter: for a provider class, a request and the number of the
  attempt within one generate call, the outcome of the client call.
\<close>

type_synonym backends = "provider_kind \<Rightarrow> api_request \<Rightarrow> nat \<Rightarrow> backend_outcome"

datatype provider_error =
    NotConfigured
  | RateLimitError
  | ApiError string
  | InvalidResponse
  | ReturnedNothing

record call_trace =
  backend_calls :: nat
  sleeps :: "nat list"

definition max_retries :: nat where
  "max_retries = 3"

definition retry_delay :: nat where
  "retry_delay = 1"

text \<open>
  The body of \<open>for attempt in range(max_retries)\<close>, over the attempts still to run. An
  invalid response raises inside the \<open>try\<close> and is re-raised by the last handler, as any
  other error is; only a rate limit before the last attempt sleeps and goes on. The loop
  ending without return or raise would make Python return \<open>None\<close> (\<open>ReturnedNothing\<close>).
\<close>

fun retry_loop :: "(nat \<Rightarrow> backend_outcome) \<Rightarrow> nat list \<Rightarrow> call_trace
    \<Rightarrow> (provider_error + string) \<times> call_trace" where
  "retry_loop backend [] tr = (Inl ReturnedNothing, tr)"
| "retry_loop backend (attempt # rest) tr =
     (let tr1 = tr\<lparr>backend_calls := backend_calls tr + 1\<rparr>
      in case backend attempt of
           Completion response \<Rightarrow>
             if \<not> validate_response response then (Inl InvalidResponse, tr1)
             else (Inr response, tr1)
         | RateLimited \<Rightarrow>
             if attempt < max_retries - 1
             then (let wait_time = retry_delay * 2 ^ attempt
                   in retry_loop backend rest (tr1\<lparr>sleeps := sleeps tr1 @ [wait_time]\<rparr>))
             else (Inl RateLimitError, tr1)
         | BackendFailure msg \<Rightarrow> (Inl (ApiError msg), tr1))"

text \<open>
  How an attempt that does not sleep ends the call (used to state the loop unrolled).
\<close>

definition settle :: "backend_outcome \<Rightarrow> call_trace \<Rightarrow> (provider_error + string) \<times> call_trace" where
  "settle outcome tr = (case outcome of
       Completion response \<Rightarrow>
         if validate_response response then (Inr response, tr) else (Inl InvalidResponse, tr)
     | RateLimited \<Rightarrow> (Inl RateLimitError, tr)
     | BackendFailure msg \<Rightarrow> (Inl (ApiError msg), tr))"

text \<open>The request every attempt of one generate call sends to the client.\<close>

definition api_call :: "provider \<Rightarrow> string \<Rightarrow> int \<Rightarrow> rat \<Rightarrow> (string \<times> pyval) list \<Rightarrow> api_request" where
  "api_call p prompt max_tokens temperature kwargs =
     \<lparr>req_model = model p, req_prompt = prompt, req_max_tokens = max_tokens,
      req_temperature = temperature, req_kwargs = kwargs\<rparr>"

text \<open>
  \<open>generate\<close> of the three provider classes: the availability check, then the retry loop
  (the classes differ in the client call and in the exception classes only).
\<close>

definition provider_generate :: "backends \<Rightarrow> provider \<Rightarrow> string \<Rightarrow> int \<Rightarrow> rat
    \<Rightarrow> (string \<times> pyval) list \<Rightarrow> (provider_error + string) \<times> call_trace" where
  "provider_generate world p prompt max_tokens temperature kwargs =
     (let tr0 = \<lparr>backend_calls = 0, sleeps = []\<rparr>
      in if \<not> is_available p then (Inl NotConfigured, tr0)
         else retry_loop (world (kind p) (api_call p prompt max_tokens temperature kwargs))
                [0..<max_retries] tr0)"

section \<open>The response cache (utils/cache.py)\<close>

text \<open>
  \<open>json.dumps\<close>, \<open>hashlib.md5\<close> and \<open>json.loads\<close> belong to Python's standard library and
  are parameters of the model: \<open>dumps_items\<close> renders the items of a dict in the order given,
  \<open>md5_hexdigest\<close> is the digest of the rendered string, and \<open>json_loads\<close> is the strict
  parser (\<open>None\<close> where it raises \<open>JSONDecodeError\<close>).
\<close>

record stdlib =
  dumps_items :: "(string \<times> pyval) list \<Rightarrow> string"
  md5_hexdigest :: "string \<Rightarrow> string"
  json_loads :: "string \<Rightarrow> pyval option"

text \<open>
  A Python dict is an association list with distinct keys in insertion order; \<open>dict_set\<close> is
  \<open>d[k] = v\<close> (a key already present keeps its place), and the dict display
  \<open>{"prompt": prompt, "model": model, **rest}\<close> stores the items from left to right.
\<close>

fun dict_set :: "(string \<times> pyval) list \<Rightarrow> string \<Rightarrow> pyval \<Rightarrow> (string \<times> pyval) list" where
  "dict_set [] k v = [(k, v)]"
| "dict_set ((k', v') # d) k v = (if k' = k then (k, v) # d else (k', v') # dict_set d k v)"

definition dict_update :: "(string \<times> pyval) list \<Rightarrow> (string \<times> pyval) list
    \<Rightarrow> (string \<times> pyval) list" where
  "dict_update d items = foldl (\<lambda>acc (k, v). dict_set acc k v) d items"

text \<open>\<open>json.dumps(d, sort_keys=True)\<close>: the items sorted by key, then rendered.\<close>

definition json_dumps_sort_keys :: "stdlib \<Rightarrow> (string \<times> pyval) list \<Rightarrow> string" where
  "json_dumps_sort_keys lib d = dumps_items lib (sort_key fst d)"

text \<open>
  \<open>LLMCache._generate_cache_key\<close>. \<open>kwargs\<close> is the keyword dict of the call (distinct keys,
  in the order the caller wrote them); \<open>sorted(kwargs.items())\<close> orders the pairs by key.
\<close>

definition generate_cache_key :: "stdlib \<Rightarrow> string \<Rightarrow> string \<Rightarrow> (string \<times> pyval) list \<Rightarrow> string" where
  "generate_cache_key lib prompt mdl kwargs =
     (let cache_input =
            dict_update [(''prompt'', PStr prompt), (''model'', PStr mdl)]
              (filter (\<lambda>(k, v). v \<noteq> PNone) (sort_key fst kwargs));
          cache_str = json_dumps_sort_keys lib cache_input
      in md5_hexdigest lib cache_str)"

text \<open>
  The cache directory maps a key (the file \<open>key.json\<close>) to the file's content: an entry as
  \<open>set\<close> writes it, or something \<open>json.load\<close>, the field lookups or \<open>fromisoformat\<close> fail on.
  Times are microseconds (the resolution of \<open>datetime\<close>) on the local clock.
\<close>

record cache_entry =
  entry_prompt :: string
  entry_model :: string
  entry_response :: string
  cached_at :: int
  entry_parameters :: "(string \<times> pyval) list"

datatype cache_file = Entry cache_entry | Unreadable

type_synonym cache_dir = "string \<rightharpoonup> cache_file"

definition timedelta_hours :: "int \<Rightarrow> int" where
  "timedelta_hours h = h * 3600 * 1000000"

text \<open>\<open>LLMCache.get\<close>: the response or \<open>None\<close>, and the directory afterwards.\<close>

definition cache_get :: "stdlib \<Rightarrow> cache_dir \<Rightarrow> int \<Rightarrow> string \<Rightarrow> string \<Rightarrow> int
    \<Rightarrow> (string \<times> pyval) list \<Rightarrow> string option \<times> cache_dir" where
  "cache_get lib dir now prompt mdl max_age_hours kwargs =
     (let cache_key = generate_cache_key lib prompt mdl kwargs
      in case dir cache_key of
           None \<Rightarrow> (None, dir)
         | Some Unreadable \<Rightarrow> (None, dir)
         | Some (Entry cache_data) \<Rightarrow>
             (let age = now - cached_at cache_data
              in if age > timedelta_hours max_age_hours
                 then (None, dir(cache_key := None))
                 else (Some (entry_response cache_data), dir)))"

text \<open>
  \<open>LLMCache.set\<close>: the file of the key is overwritten with the new entry. (A failing write is
  logged and swallowed by the source; the model's directory always accepts the write.)
\<close>

definition cache_set :: "stdlib \<Rightarrow> cache_dir \<Rightarrow> int \<Rightarrow> string \<Rightarrow> string \<Rightarrow> string
    \<Rightarrow> (string \<times> pyval) list \<Rightarrow> cache_dir" where
  "cache_set lib dir now prompt mdl response kwargs =
     (let cache_key = generate_cache_key lib prompt mdl kwargs;
          cache_data = \<lparr>entry_prompt = prompt, entry_model = mdl, entry_response = response,
                        cached_at = now,
                        entry_parameters = filter (\<lambda>(k, v). v \<noteq> PNone) kwargs\<rparr>
      in dir(cache_key \<mapsto> Entry cache_data))"

section \<open>The manager (core/llm/manager.py)\<close>

text \<open>
  \<open>LLMManager.__init__\<close> builds one object of each provider class and stores it under the
  keys \<open>claude\<close>, \<open>openai\<close>, \<open>bedrock\<close>. The manager's state is what these objects hold: the
  \<open>model\<close> attribute (which routing overwrites) and the client (fixed by the constructor).
  \<open>self.available_providers\<close> holds the same objects, those whose \<open>is_available()\<close> was true
  at construction; the client never changes afterwards, so the dict is read off the state.
\<close>

record manager =
  models :: "provider_kind \<Rightarrow> string"
  clients :: "provider_kind \<Rightarrow> bool"

definition LLMManager_init :: "bool \<Rightarrow> bool \<Rightarrow> bool \<Rightarrow> manager" where
  "LLMManager_init claude_client openai_client bedrock_client =
     \<lparr>models = DEFAULT_MODEL,
      clients = (\<lambda>k. case k of Claude \<Rightarrow> claude_client | OpenAI \<Rightarrow> openai_client
                        | Bedrock \<Rightarrow> bedrock_client)\<rparr>"

definition provider_object :: "manager \<Rightarrow> provider_kind \<Rightarrow> provider" where
  "provider_object m k = \<lparr>kind = k, model = models m k, client = clients m k\<rparr>"

definition providers :: "manager \<Rightarrow> (string \<times> provider) list" where
  "providers m =
     [(''claude'', provider_object m Claude),
      (''openai'', provider_object m OpenAI),
      (''bedrock'', provider_object m Bedrock)]"

definition available_providers :: "manager \<Rightarrow> (string \<times> provider) list" where
  "available_providers m = filter (\<lambda>(name, p). is_available p) (providers m)"

text \<open>\<open>provider.model = mdl\<close> on the object \<open>provider\<close>.\<close>

definition set_model :: "manager \<Rightarrow> provider \<Rightarrow> string \<Rightarrow> manager" where
  "set_model m p mdl = m\<lparr>models := (models m)(kind p := mdl)\<rparr>"

text \<open>
  The loop \<open>for name in ["claude", "openai", "bedrock"]\<close> of the branches \<open>simple\<close> and
  \<open>refinement\<close>: the first name that is a key of \<open>available_providers\<close>, with
  \<open>if hasattr(provider, "get_cheap_model"): provider.model = provider.get_cheap_model()\<close>;
  \<open>None\<close> when the loop ends without return.
\<close>

fun first_cheap :: "manager \<Rightarrow> string list \<Rightarrow> (provider \<times> manager) option" where
  "first_cheap m [] = None"
| "first_cheap m (name # names) =
     (case map_of (available_providers m) name of
        Some p \<Rightarrow>
          (case get_cheap_model (kind p) of
             Some mdl \<Rightarrow> Some (p\<lparr>model := mdl\<rparr>, set_model m p mdl)
           | None \<Rightarrow> Some (p, m))
      | None \<Rightarrow> first_cheap m names)"

text \<open>
  \<open>LLMManager.get_provider\<close>: the provider object returned (\<open>None\<close> for Python's \<open>None\<close>), as
  it is after the call, and the manager after the call. The argument \<open>provider_name\<close> of the
  source is \<open>requested_name\<close> here.
\<close>

definition default_provider :: "manager \<Rightarrow> provider option \<times> manager" where
  "default_provider m =
     (case available_providers m of [] \<Rightarrow> (None, m) | (name, p) # _ \<Rightarrow> (Some p, m))"

definition route_by_task :: "manager \<Rightarrow> string \<Rightarrow> provider option \<times> manager" where
  "route_by_task m task_type =
     (if task_type = ''simple'' then
        (case first_cheap m [''claude'', ''openai'', ''bedrock''] of
           Some (p, m') \<Rightarrow> (Some p, m')
         | None \<Rightarrow> default_provider m)
      else if task_type = ''script_generation'' then
        (case map_of (available_providers m) ''claude'' of
           Some p \<Rightarrow>
             (Some (p\<lparr>model := ClaudeProvider_get_quality_model\<rparr>),
              set_model m p ClaudeProvider_get_quality_model)
         | None \<Rightarrow>
             (case map_of (available_providers m) ''openai'' of
                Some p \<Rightarrow>
                  (Some (p\<lparr>model := OpenAIProvider_get_quality_model\<rparr>),
                   set_model m p OpenAIProvider_get_quality_model)
              | None \<Rightarrow> default_provider m))
      else if task_type = ''refinement'' then
        (case first_cheap m [''claude'', ''openai'', ''bedrock''] of
           Some (p, m') \<Rightarrow> (Some p, m')
         | None \<Rightarrow> default_provider m)
      else default_provider m)"

definition get_provider :: "manager \<Rightarrow> string option \<Rightarrow> string \<Rightarrow> provider option \<times> manager" where
  "get_provider m requested_name task_type =
     (case requested_name of
        None \<Rightarrow> route_by_task m task_type
      | Some pn \<Rightarrow>
          if pn = [] then route_by_task m task_type
          else (case map_of (available_providers m) (lower pn) of
                  Some p \<Rightarrow> (Some p, m)
                | None \<Rightarrow> route_by_task m task_type))"

subsection \<open>generate\<close>

datatype manager_error =
    NoProviders
  | AllProvidersFailed "provider_error option"
  | ParseFailure string

text \<open>The arguments of \<open>LLMManager.generate\<close>, under the source's names.\<close>

record generate_args =
  arg_prompt :: string
  arg_provider_name :: "string option"
  arg_task_type :: string
  arg_use_cache :: bool
  arg_max_tokens :: int
  arg_temperature :: rat
  arg_fallback :: bool
  arg_kwargs :: "(string \<times> pyval) list"

text \<open>
  What a call leaves behind: the cache directory, and the provider calls made, in order,
  each with the provider's name and its trace.
\<close>

record effects =
  cache :: cache_dir
  invoked :: "(string \<times> call_trace) list"

text \<open>
  \<open>provider_call\<close> is \<open>current_provider.generate(prompt=prompt, max_tokens=max_tokens,
  temperature=temperature, **kwargs)\<close>.
  The loop \<open>for idx, current_provider in enumerate(providers_to_try)\<close>; \<open>n\<close> is
  \<open>len(providers_to_try)\<close>, \<open>t_set\<close> the clock when the cache entry is written. Leaving the
  loop by \<open>break\<close> or by exhaustion reaches the final \<open>raise\<close> with \<open>last_error\<close>.
\<close>

definition provider_call :: "backends \<Rightarrow> generate_args \<Rightarrow> provider
    \<Rightarrow> (provider_error + string) \<times> call_trace" where
  "provider_call world a p =
     provider_generate world p (arg_prompt a) (arg_max_tokens a) (arg_temperature a) (arg_kwargs a)"

text \<open>
  \<open>if use_cache: llm_cache.set(prompt=prompt, model=task_type, response=response)\<close>, and the
  entry the loop records for a provider it has called.
\<close>

definition cache_response :: "stdlib \<Rightarrow> int \<Rightarrow> generate_args \<Rightarrow> string \<Rightarrow> effects \<Rightarrow> effects" where
  "cache_response lib t_set a response eff =
     (if arg_use_cache a
      then eff\<lparr>cache := cache_set lib (cache eff) t_set (arg_prompt a) (arg_task_type a) response []\<rparr>
      else eff)"

definition attempt_record :: "backends \<Rightarrow> generate_args \<Rightarrow> provider \<Rightarrow> string \<times> call_trace" where
  "attempt_record world a p = (provider_name p, snd (provider_call world a p))"

fun try_providers :: "stdlib \<Rightarrow> backends \<Rightarrow> int \<Rightarrow> generate_args \<Rightarrow> nat \<Rightarrow> nat
    \<Rightarrow> provider list \<Rightarrow> provider_error option \<Rightarrow> effects
    \<Rightarrow> (manager_error + string) \<times> effects" where
  "try_providers lib world t_set a n idx [] last_error eff =
     (Inl (AllProvidersFailed last_error), eff)"
| "try_providers lib world t_set a n idx (current_provider # rest) last_error eff =
     (case provider_call world a current_provider of
        (result, tr) \<Rightarrow>
          (let eff1 = eff\<lparr>invoked := invoked eff @ [(provider_name current_provider, tr)]\<rparr>
           in case result of
                Inr response \<Rightarrow> (Inr response, cache_response lib t_set a response eff1)
              | Inl e \<Rightarrow>
                  if \<not> arg_fallback a \<or> idx = n - 1
                  then (Inl (AllProvidersFailed (Some e)), eff1)
                  else try_providers lib world t_set a n (idx + 1) rest (Some e) eff1))"

text \<open>
  The fallback chain: the routed provider, then (with \<open>fallback\<close>) every object of
  \<open>available_providers\<close> that is not that provider. The objects of one manager differ in
  their class, so comparing the records compares the objects.
\<close>

definition providers_to_try :: "manager \<Rightarrow> provider \<Rightarrow> bool \<Rightarrow> provider list" where
  "providers_to_try m p fallback =
     (let fallback_providers =
            (if fallback
             then map snd (filter (\<lambda>(name, fallback_provider). fallback_provider \<noteq> p)
                             (available_providers m))
             else [])
      in [p] @ fallback_providers)"

text \<open>
  The cache check that opens \<open>generate\<close>:
  \<open>llm_cache.get(prompt=prompt, model=task_type, max_age_hours=168)\<close> when \<open>use_cache\<close> is set.
\<close>

definition cache_lookup :: "stdlib \<Rightarrow> cache_dir \<Rightarrow> int \<Rightarrow> generate_args
    \<Rightarrow> string option \<times> cache_dir" where
  "cache_lookup lib dir t_get a =
     (if arg_use_cache a
      then cache_get lib dir t_get (arg_prompt a) (arg_task_type a) 168 []
      else (None, dir))"

text \<open>
  \<open>LLMManager.generate\<close>, from a manager \<open>m\<close> and a cache directory \<open>dir\<close>; \<open>t_get\<close> is the clock
  at the cache lookup and \<open>t_set\<close> the clock at the cache write. The cache is looked up and
  written with the prompt and the task type only.
\<close>

definition generate :: "stdlib \<Rightarrow> backends \<Rightarrow> manager \<Rightarrow> cache_dir \<Rightarrow> int \<Rightarrow> int \<Rightarrow> generate_args
    \<Rightarrow> (manager_error + string) \<times> manager \<times> effects" where
  "generate lib world m dir t_get t_set a =
     (let (cached_response, dir1) = cache_lookup lib dir t_get a;
          eff0 = \<lparr>cache = dir1, invoked = []\<rparr>
      in if cached_response \<noteq> None \<and> cached_response \<noteq> Some []
         then (Inr (the cached_response), m, eff0)
         else (case get_provider m (arg_provider_name a) (arg_task_type a) of
                 (None, m1) \<Rightarrow> (Inl NoProviders, m1, eff0)
               | (Some p, m1) \<Rightarrow>
                   (let ps = providers_to_try m1 p (arg_fallback a)
                    in case try_providers lib world t_set a (length ps) 0 ps None eff0 of
                         (result, eff) \<Rightarrow> (result, m1, eff))))"

subsection \<open>generate_with_json_parsing\<close>

text \<open>
  \<open>re.search(r'\{.*\}', response, re.DOTALL)\<close> and its twin for brackets. The engine tries
  the start positions from the left; at a position it needs the opening character, lets
  \<open>.*\<close> take everything that follows and gives characters back one by one until the closing
  character follows. \<open>star_then\<close> is that backtracking: \<open>k\<close> is the number of characters \<open>.*\<close>
  still holds.
\<close>

fun star_then :: "char \<Rightarrow> string \<Rightarrow> nat \<Rightarrow> string option" where
  "star_then cl s 0 = (if 0 < length s \<and> s ! 0 = cl then Some (take 1 s) else None)"
| "star_then cl s (Suc k) =
     (if Suc k < length s \<and> s ! Suc k = cl then Some (take (Suc k + 1) s)
      else star_then cl s k)"

fun re_search :: "char \<Rightarrow> char \<Rightarrow> string \<Rightarrow> string option" where
  "re_search opn cl [] = None"
| "re_search opn cl (c # cs) =
     (if c = opn
      then (case star_then cl cs (length cs) of
              Some rest \<Rightarrow> Some (c # rest)
            | None \<Rightarrow> re_search opn cl cs)
      else re_search opn cl cs)"

text \<open>
  The parsing half of \<open>generate_with_json_parsing\<close>, on the response text: a strict parse,
  then the braces, then the brackets, then the exception with \<open>response[:200]\<close>.
\<close>

definition try_match :: "stdlib \<Rightarrow> string option \<Rightarrow> pyval option" where
  "try_match lib json_match =
     (case json_match of None \<Rightarrow> None | Some group0 \<Rightarrow> json_loads lib group0)"

definition parse_json_response :: "stdlib \<Rightarrow> string \<Rightarrow> manager_error + pyval" where
  "parse_json_response lib response =
     (case json_loads lib response of
        Some v \<Rightarrow> Inr v
      | None \<Rightarrow>
          (case try_match lib (re_search (CHR ''{'') (CHR ''}'') response) of
             Some v \<Rightarrow> Inr v
           | None \<Rightarrow>
               (case try_match lib (re_search (CHR ''['') (CHR '']'') response) of
                  Some v \<Rightarrow> Inr v
                | None \<Rightarrow> Inl (ParseFailure (take 200 response)))))"

definition generate_with_json_parsing :: "stdlib \<Rightarrow> backends \<Rightarrow> manager \<Rightarrow> cache_dir \<Rightarrow> int \<Rightarrow> int
    \<Rightarrow> generate_args \<Rightarrow> (manager_error + pyval) \<times> manager \<times> effects" where
  "generate_with_json_parsing lib world m dir t_get t_set a =
     (case generate lib world m dir t_get t_set a of
        (Inl e, m1, eff) \<Rightarrow> (Inl e, m1, eff)
      | (Inr response, m1, eff) \<Rightarrow> (parse_json_response lib response, m1, eff))"


section \<open>The spec's words for routing\<close>




section \<open>A stand-in for the standard library\<close>

text \<open>
  To run the model on concrete inputs the three library functions need values. The parser
  below reads the JSON texts made of objects, arrays, strings without escapes, integers and
  the three literals, with the grammar's whitespace; on these texts it returns what
  \<open>json.loads\<close> returns, and it rejects every other text. Its recursion is bounded by a
  fuel that the length of the text covers. The renderer and the digest are simple
  injective-enough stand-ins: the theorems below hold for every \<open>stdlib\<close>.
\<close>

definition json_ws :: "char \<Rightarrow> bool" where
  "json_ws c = (c = CHR '' '' \<or> c = CHR 0x09 \<or> c = CHR 0x0A \<or> c = CHR 0x0D)"

definition skip_ws :: "string \<Rightarrow> string" where
  "skip_ws s = dropWhile json_ws s"

definition is_digit :: "char \<Rightarrow> bool" where
  "is_digit c = (48 \<le> (of_char c :: nat) \<and> (of_char c :: nat) \<le> 57)"

definition int_of_digits :: "string \<Rightarrow> int" where
  "int_of_digits ds = foldl (\<lambda>acc c. 10 * acc + (int (of_char c) - 48)) 0 ds"

definition parse_int :: "string \<Rightarrow> (pyval \<times> string) option" where
  "parse_int s =
     (let (neg, body) = (case s of c # cs \<Rightarrow> if c = CHR ''-'' then (True, cs) else (False, s)
                                 | [] \<Rightarrow> (False, s));
          ds = takeWhile is_digit body;
          rest = dropWhile is_digit body
      in if ds = [] \<or> (length ds > 1 \<and> hd ds = CHR ''0'') then None
         else if rest \<noteq> [] \<and> hd rest \<in> {CHR ''.'', CHR ''e'', CHR ''E''} then None
         else Some (PInt (if neg then - int_of_digits ds else int_of_digits ds), rest))"

fun parse_string_body :: "string \<Rightarrow> (string \<times> string) option" where
  "parse_string_body [] = None"
| "parse_string_body (c # cs) =
     (if c = CHR 0x22 then Some ([], cs)
      else if c = CHR 0x5C \<or> (of_char c :: nat) < 32 then None
      else (case parse_string_body cs of
              None \<Rightarrow> None
            | Some (body, rest) \<Rightarrow> Some (c # body, rest)))"

definition parse_literal :: "string \<Rightarrow> (pyval \<times> string) option" where
  "parse_literal s =
     (if take 4 s = ''null'' then Some (PNone, drop 4 s)
      else if take 4 s = ''true'' then Some (PBool True, drop 4 s)
      else if take 5 s = ''false'' then Some (PBool False, drop 5 s)
      else parse_int s)"

fun parse_value :: "nat \<Rightarrow> string \<Rightarrow> (pyval \<times> string) option"
  and parse_elements :: "nat \<Rightarrow> string \<Rightarrow> (pyval list \<times> string) option"
  and parse_members :: "nat \<Rightarrow> string \<Rightarrow> ((string \<times> pyval) list \<times> string) option" where
  "parse_value 0 s = None"
| "parse_value (Suc fuel) s =
     (case skip_ws s of
        [] \<Rightarrow> None
      | c # cs \<Rightarrow>
          if c = CHR ''{'' then
            (case skip_ws cs of
               [] \<Rightarrow> None
             | d # r \<Rightarrow>
                 if d = CHR ''}'' then Some (PDict [], r)
                 else (case parse_members fuel cs of
                         None \<Rightarrow> None
                       | Some (items, r') \<Rightarrow> Some (PDict items, r')))
          else if c = CHR ''['' then
            (case skip_ws cs of
               [] \<Rightarrow> None
             | d # r \<Rightarrow>
                 if d = CHR '']'' then Some (PList [], r)
                 else (case parse_elements fuel cs of
                         None \<Rightarrow> None
                       | Some (vs, r') \<Rightarrow> Some (PList vs, r')))
          else if c = CHR 0x22 then
            (case parse_string_body cs of
               None \<Rightarrow> None
             | Some (body, r) \<Rightarrow> Some (PStr body, r))
          else parse_literal (c # cs))"
| "parse_elements 0 s = None"
| "parse_elements (Suc fuel) s =
     (case parse_value fuel s of
        None \<Rightarrow> None
      | Some (v, r) \<Rightarrow>
          (case skip_ws r of
             [] \<Rightarrow> None
           | d # r' \<Rightarrow>
               if d = CHR '']'' then Some ([v], r')
               else if d = CHR '','' then
                 (case parse_elements fuel r' of
                    None \<Rightarrow> None
                  | Some (vs, r'') \<Rightarrow> Some (v # vs, r''))
               else None))"
| "parse_members 0 s = None"
| "parse_members (Suc fuel) s =
     (case skip_ws s of
        [] \<Rightarrow> None
      | q # cs \<Rightarrow>
          if q \<noteq> CHR 0x22 then None
          else (case parse_string_body cs of
                  None \<Rightarrow> None
                | Some (k, r) \<Rightarrow>
                    (case skip_ws r of
                       [] \<Rightarrow> None
                     | colon # r1 \<Rightarrow>
                         if colon \<noteq> CHR '':'' then None
                         else (case parse_value fuel r1 of
                                 None \<Rightarrow> None
                               | Some (v, r2) \<Rightarrow>
                                   (case skip_ws r2 of
                                      [] \<Rightarrow> None
                                    | d # r3 \<Rightarrow>
                                        if d = CHR ''}'' then Some ([(k, v)], r3)
                                        else if d = CHR '','' then
                                          (case parse_members fuel r3 of
                                             None \<Rightarrow> None
                                           | Some (items, r4) \<Rightarrow> Some ((k, v) # items, r4))
                                        else None)))))"

definition small_json_loads :: "string \<Rightarrow> pyval option" where
  "small_json_loads s =
     (case parse_value (length s + 1) s of
        None \<Rightarrow> None
      | Some (v, rest) \<Rightarrow> if skip_ws rest = [] then Some v else None)"

definition small_dumps_items :: "(string \<times> pyval) list \<Rightarrow> string" where
  "small_dumps_items items =
     concat (map (\<lambda>(k, v). k @ ''='' @ (case v of PStr x \<Rightarrow> x | _ \<Rightarrow> ''?'') @ '';'') items)"

definition small_stdlib :: stdlib where
  "small_stdlib =
     \<lparr>dumps_items = small_dumps_items, md5_hexdigest = (\<lambda>x. x), json_loads = small_json_loads\<rparr>"

section \<open>Scenarios\<close>

text \<open>
  Concrete backends, providers and arguments on which the model is run: a backend that is
  always rate limited, one that is rate limited once and then fails, one whose Claude
  backend is down while the others answer, one where every backend is down, and one whose
  Claude backend answers with a text that is too short.
\<close>

definition always_rate_limited :: backends where
  "always_rate_limited = (\<lambda>k req attempt. RateLimited)"

definition limited_then_failing :: backends where
  "limited_then_failing =
     (\<lambda>k req attempt. if attempt = 0 then RateLimited else BackendFailure ''boom'')"

definition claude_down :: backends where
  "claude_down =
     (\<lambda>k req attempt. case k of Claude \<Rightarrow> BackendFailure ''overloaded''
                         | OpenAI \<Rightarrow> Completion ''an answer from openai''
                         | Bedrock \<Rightarrow> Completion ''an answer from bedrock'')"

definition all_down :: backends where
  "all_down =
     (\<lambda>k req attempt. case k of Claude \<Rightarrow> BackendFailure ''claude is down''
                         | OpenAI \<Rightarrow> BackendFailure ''openai is down''
                         | Bedrock \<Rightarrow> BackendFailure ''bedrock is down'')"

definition short_answer :: backends where
  "short_answer =
     (\<lambda>k req attempt. case k of Claude \<Rightarrow> Completion ''  ok  ''
                         | OpenAI \<Rightarrow> Completion ''an answer from openai''
                         | Bedrock \<Rightarrow> Completion ''an answer from bedrock'')"

definition claude_ready :: provider where
  "claude_ready = \<lparr>kind = Claude, model = ''claude-3-5-haiku-20241022'', client = True\<rparr>"

definition openai_ready :: provider where
  "openai_ready = \<lparr>kind = OpenAI, model = ''gpt-4o-mini'', client = True\<rparr>"

definition bedrock_ready :: provider where
  "bedrock_ready =
     \<lparr>kind = Bedrock, model = ''anthropic.claude-3-5-haiku-20241022-v1:0'', client = True\<rparr>"

definition plain_args :: generate_args where
  "plain_args =
     \<lparr>arg_prompt = ''Write a hook'', arg_provider_name = None, arg_task_type = ''general'',
      arg_use_cache = False, arg_max_tokens = 2000, arg_temperature = 7 / 10,
      arg_fallback = True, arg_kwargs = []\<rparr>"

definition cached_args :: generate_args where
  "cached_args = plain_args\<lparr>arg_use_cache := True\<rparr>"

definition no_fallback_args :: generate_args where
  "no_fallback_args = plain_args\<lparr>arg_fallback := False\<rparr>"

definition other_args :: generate_args where
  "other_args =
     cached_args\<lparr>arg_provider_name := Some ''openai'', arg_max_tokens := 50,
                  arg_temperature := 0, arg_fallback := False,
                  arg_kwargs := [(''system'', PStr ''be terse'')]\<rparr>"



section \<open>Shared lemmas\<close>

lemma range_max_retries: "[0..<max_retries] = [0, 1, 2]"
  by (simp add: max_retries_def upt_rec)

lemma strip_Nil: "strip [] = []"
  by (simp add: strip_def)

lemma validate_response_iff: "validate_response response = (10 \<le> length (strip response))"
  by (cases "strip response = []") (auto simp: validate_response_def strip_Nil)

lemma retry_loop_three:
  "retry_loop backend [0..<max_retries] \<lparr>backend_calls = 0, sleeps = []\<rparr> =
     (if backend 0 \<noteq> RateLimited then settle (backend 0) \<lparr>backend_calls = 1, sleeps = []\<rparr>
      else if backend 1 \<noteq> RateLimited then settle (backend 1) \<lparr>backend_calls = 2, sleeps = [1]\<rparr>
      else settle (backend 2) \<lparr>backend_calls = 3, sleeps = [1, 2]\<rparr>)"
  unfolding range_max_retries
  by (cases "backend 0"; cases "backend 1"; cases "backend 2")
     (simp_all add: max_retries_def retry_delay_def settle_def Let_def)

lemma provider_generate_unrolled:
  "provider_generate world p prompt max_tokens temperature kwargs =
     (let backend = world (kind p) (api_call p prompt max_tokens temperature kwargs)
      in if \<not> is_available p then (Inl NotConfigured, \<lparr>backend_calls = 0, sleeps = []\<rparr>)
         else if backend 0 \<noteq> RateLimited then settle (backend 0) \<lparr>backend_calls = 1, sleeps = []\<rparr>
         else if backend 1 \<noteq> RateLimited then settle (backend 1) \<lparr>backend_calls = 2, sleeps = [1]\<rparr>
         else settle (backend 2) \<lparr>backend_calls = 3, sleeps = [1, 2]\<rparr>)"
  by (simp add: provider_generate_def retry_loop_three Let_def)

lemma settle_returns: "fst (settle outcome tr) \<noteq> Inl ReturnedNothing"
  by (cases outcome) (simp_all add: settle_def)

lemma provider_generate_returns:
  "fst (provider_generate world p prompt max_tokens temperature kwargs) \<noteq> Inl ReturnedNothing"
  by (simp add: provider_generate_unrolled Let_def settle_returns)

lemma settle_Inr: "settle outcome tr = (Inr response, tr') \<Longrightarrow> validate_response response"
  by (cases outcome) (auto simp: settle_def split: if_splits)

lemma provider_generate_valid:
  "provider_generate world p prompt max_tokens temperature kwargs = (Inr response, tr)
    \<Longrightarrow> validate_response response"
  by (auto simp: provider_generate_unrolled Let_def split: if_splits dest: settle_Inr)

lemma rate_limited_prefix:
  "k < 3 \<Longrightarrow> \<forall>j<k. backend j = RateLimited \<Longrightarrow> backend k \<noteq> RateLimited \<Longrightarrow>
     (if backend 0 \<noteq> RateLimited then settle (backend 0) \<lparr>backend_calls = 1, sleeps = []\<rparr>
      else if backend 1 \<noteq> RateLimited then settle (backend 1) \<lparr>backend_calls = 2, sleeps = [1]\<rparr>
      else settle (backend 2) \<lparr>backend_calls = 3, sleeps = [1, 2]\<rparr>)
     = settle (backend k) \<lparr>backend_calls = k + 1, sleeps = map (\<lambda>j. 2 ^ j) [0..<k]\<rparr>"
proof -
  assume k: "k < 3" and rl: "\<forall>j<k. backend j = RateLimited" and nk: "backend k \<noteq> RateLimited"
  from k consider "k = 0" | "k = 1" | "k = 2" by linarith
  then show ?thesis
  proof cases
    case 1
    with nk show ?thesis by simp
  next
    case 2
    with rl have "backend 0 = RateLimited" by simp
    with 2 nk show ?thesis by (simp add: numeral_2_eq_2)
  next
    case 3
    with rl have "backend 0 = RateLimited" "backend 1 = RateLimited" by simp_all
    with 3 nk show ?thesis by (simp add: upt_rec numeral_2_eq_2 numeral_3_eq_3)
  qed
qed

lemma provider_generate_settles:
  assumes "is_available p" and "k < 3"
    and "\<forall>j<k. world (kind p) (api_call p prompt max_tokens temperature kwargs) j = RateLimited"
    and "world (kind p) (api_call p prompt max_tokens temperature kwargs) k \<noteq> RateLimited"
  shows "provider_generate world p prompt max_tokens temperature kwargs =
     settle (world (kind p) (api_call p prompt max_tokens temperature kwargs) k)
       \<lparr>backend_calls = k + 1, sleeps = map (\<lambda>j. 2 ^ j) [0..<k]\<rparr>"
  using assms(1) rate_limited_prefix [OF assms(2,3,4)]
  by (simp add: provider_generate_unrolled Let_def)

section \<open>Cost estimation\<close>



section \<open>The retry policy of a provider\<close>

text \<open>
  C2 (as the code has it). For every available provider: when the backend signals a rate
  limit on every attempt, generate calls the backend exactly 3 times, sleeps 1s before the
  second and 2s before the third call (there is no third sleep: the last attempt re-raises
  at once), and ends with the rate-limit error; when, after k < 3 rate-limited attempts, the
  backend raises any other error, generate ends with that error after k + 1 calls, having
  slept 1s, 2s, ... only for the k rate limits, and calls the backend no more.
\<close>

theorem provider_retry_policy:
  "is_available p \<longrightarrow>
     ((\<forall>attempt<3. world (kind p) (api_call p prompt max_tokens temperature kwargs) attempt = RateLimited)
        \<longrightarrow> provider_generate world p prompt max_tokens temperature kwargs =
              (Inl RateLimitError, \<lparr>backend_calls = 3, sleeps = [1, 2]\<rparr>))
     \<and> (\<forall>k msg. k < 3
          \<and> (\<forall>j<k. world (kind p) (api_call p prompt max_tokens temperature kwargs) j = RateLimited)
          \<and> world (kind p) (api_call p prompt max_tokens temperature kwargs) k = BackendFailure msg
        \<longrightarrow> provider_generate world p prompt max_tokens temperature kwargs =
              (Inl (ApiError msg), \<lparr>backend_calls = k + 1, sleeps = map (\<lambda>j. 2 ^ j) [0..<k]\<rparr>))"
proof (intro impI conjI allI)
  assume av: "is_available p"
    and all: "\<forall>attempt<3. world (kind p) (api_call p prompt max_tokens temperature kwargs) attempt = RateLimited"
  then have "world (kind p) (api_call p prompt max_tokens temperature kwargs) 0 = RateLimited"
    "world (kind p) (api_call p prompt max_tokens temperature kwargs) 1 = RateLimited"
    "world (kind p) (api_call p prompt max_tokens temperature kwargs) 2 = RateLimited"
    by simp_all
  with av show "provider_generate world p prompt max_tokens temperature kwargs =
      (Inl RateLimitError, \<lparr>backend_calls = 3, sleeps = [1, 2]\<rparr>)"
    by (simp add: provider_generate_unrolled Let_def settle_def)
next
  fix k msg
  assume av: "is_available p"
    and h: "k < 3
          \<and> (\<forall>j<k. world (kind p) (api_call p prompt max_tokens temperature kwargs) j = RateLimited)
          \<and> world (kind p) (api_call p prompt max_tokens temperature kwargs) k = BackendFailure msg"
  then have "provider_generate world p prompt max_tokens temperature kwargs =
     settle (world (kind p) (api_call p prompt max_tokens temperature kwargs) k)
       \<lparr>backend_calls = k + 1, sleeps = map (\<lambda>j. 2 ^ j) [0..<k]\<rparr>"
    by (intro provider_generate_settles) simp_all
  with h show "provider_generate world p prompt max_tokens temperature kwargs =
      (Inl (ApiError msg), \<lparr>backend_calls = k + 1, sleeps = map (\<lambda>j. 2 ^ j) [0..<k]\<rparr>)"
    by (simp add: settle_def)
qed

theorem provider_retry_policy_witness:
  "is_available claude_ready
   \<and> always_rate_limited (kind claude_ready)
          (api_call claude_ready ''Write a hook'' 2000 (7 / 10) []) 0 = RateLimited
   \<and> always_rate_limited (kind claude_ready)
          (api_call claude_ready ''Write a hook'' 2000 (7 / 10) []) 1 = RateLimited
   \<and> always_rate_limited (kind claude_ready)
          (api_call claude_ready ''Write a hook'' 2000 (7 / 10) []) 2 = RateLimited
   \<and> provider_generate always_rate_limited claude_ready ''Write a hook'' 2000 (7 / 10) [] =
        (Inl RateLimitError, \<lparr>backend_calls = 3, sleeps = [1, 2]\<rparr>)
   \<and> limited_then_failing (kind claude_ready)
          (api_call claude_ready ''Write a hook'' 2000 (7 / 10) []) 0 = RateLimited
   \<and> limited_then_failing (kind claude_ready)
          (api_call claude_ready ''Write a hook'' 2000 (7 / 10) []) 1 = BackendFailure ''boom''
   \<and> provider_generate limited_then_failing claude_ready ''Write a hook'' 2000 (7 / 10) [] =
        (Inl (ApiError ''boom''), \<lparr>backend_calls = 2, sleeps = [1]\<rparr>)"
proof -
  have av: "is_available claude_ready"
    by (simp add: is_available_def claude_ready_def)
  have rl: "\<forall>attempt<3. always_rate_limited (kind claude_ready)
          (api_call claude_ready ''Write a hook'' 2000 (7 / 10) []) attempt = RateLimited"
    by (simp add: always_rate_limited_def)
  have one: "provider_generate always_rate_limited claude_ready ''Write a hook'' 2000 (7 / 10) [] =
        (Inl RateLimitError, \<lparr>backend_calls = 3, sleeps = [1, 2]\<rparr>)"
    using provider_retry_policy [of claude_ready always_rate_limited "''Write a hook''" 2000 "7 / 10" "[]"]
      av rl by blast
  have f0: "limited_then_failing (kind claude_ready)
          (api_call claude_ready ''Write a hook'' 2000 (7 / 10) []) 0 = RateLimited"
    and f1: "limited_then_failing (kind claude_ready)
          (api_call claude_ready ''Write a hook'' 2000 (7 / 10) []) 1 = BackendFailure ''boom''"
    by (simp_all add: limited_then_failing_def)
  have "(1::nat) < 3
          \<and> (\<forall>j<1. limited_then_failing (kind claude_ready)
                (api_call claude_ready ''Write a hook'' 2000 (7 / 10) []) j = RateLimited)
          \<and> limited_then_failing (kind claude_ready)
                (api_call claude_ready ''Write a hook'' 2000 (7 / 10) []) 1 = BackendFailure ''boom''"
    using f0 f1 by simp
  with provider_retry_policy [of claude_ready limited_then_failing "''Write a hook''" 2000 "7 / 10" "[]"] av
  have "provider_generate limited_then_failing claude_ready ''Write a hook'' 2000 (7 / 10) [] =
        (Inl (ApiError ''boom''), \<lparr>backend_calls = 1 + 1, sleeps = map (\<lambda>j. 2 ^ j) [0..<1]\<rparr>)"
    by blast
  then have two: "provider_generate limited_then_failing claude_ready ''Write a hook'' 2000 (7 / 10) [] =
        (Inl (ApiError ''boom''), \<lparr>backend_calls = 2, sleeps = [1]\<rparr>)"
    by simp
  have r0: "always_rate_limited (kind claude_ready)
          (api_call claude_ready ''Write a hook'' 2000 (7 / 10) []) 0 = RateLimited"
    and r1: "always_rate_limited (kind claude_ready)
          (api_call claude_ready ''Write a hook'' 2000 (7 / 10) []) 1 = RateLimited"
    and r2: "always_rate_limited (kind claude_ready)
          (api_call claude_ready ''Write a hook'' 2000 (7 / 10) []) 2 = RateLimited"
    by (simp_all add: always_rate_limited_def)
  from av r0 r1 r2 one f0 f1 two show ?thesis by blast
qed

text \<open>
  The claim's backoff of 1s, 2s, 4s does not occur: a provider that is rate limited on all
  three attempts sleeps twice, 1s and 2s, and raises on the third attempt without sleeping.
\<close>

theorem retry_sleeps_counterexample:
  "backend_calls (snd (provider_generate always_rate_limited claude_ready ''Write a hook'' 2000 (7 / 10) [])) = 3
   \<and> sleeps (snd (provider_generate always_rate_limited claude_ready ''Write a hook'' 2000 (7 / 10) [])) = [1, 2]
   \<and> sleeps (snd (provider_generate always_rate_limited claude_ready ''Write a hook'' 2000 (7 / 10) [])) \<noteq> [1, 2, 4]"
  by (simp add: provider_generate_unrolled always_rate_limited_def claude_ready_def
      is_available_def settle_def Let_def)

section \<open>The validity threshold of a response\<close>

text \<open>
  C8. A provider's generate call succeeds only with a text whose length after stripping
  whitespace is at least 10. A completion that is empty, blank or shorter than that after
  stripping ends the call with the invalid-response error at the attempt that received it:
  the backend is not called again. In the manager's loop such a failure, like any other one,
  passes the turn to the next provider of the chain when fallback is on and the provider is
  not the last one.
\<close>

theorem response_validity_threshold:
  "(\<forall>response tr. provider_call world a p = (Inr response, tr) \<longrightarrow> 10 \<le> length (strip response))
   \<and> (\<forall>k response. is_available p \<and> k < 3
        \<and> (\<forall>j<k. world (kind p) (api_call p (arg_prompt a) (arg_max_tokens a) (arg_temperature a)
                      (arg_kwargs a)) j = RateLimited)
        \<and> world (kind p) (api_call p (arg_prompt a) (arg_max_tokens a) (arg_temperature a)
                      (arg_kwargs a)) k = Completion response
        \<and> length (strip response) < 10
        \<longrightarrow> provider_call world a p =
              (Inl InvalidResponse, \<lparr>backend_calls = k + 1, sleeps = map (\<lambda>j. 2 ^ j) [0..<k]\<rparr>))
   \<and> (\<forall>tr. provider_call world a p = (Inl InvalidResponse, tr) \<and> arg_fallback a \<and> idx \<noteq> n - 1
        \<longrightarrow> try_providers lib world t_set a n idx (p # rest) last_error eff =
              try_providers lib world t_set a n (idx + 1) rest (Some InvalidResponse)
                (eff\<lparr>invoked := invoked eff @ [(provider_name p, tr)]\<rparr>))"
proof (intro conjI allI impI)
  fix response tr
  assume "provider_call world a p = (Inr response, tr)"
  then have "validate_response response"
    unfolding provider_call_def by (rule provider_generate_valid)
  then show "10 \<le> length (strip response)"
    by (simp add: validate_response_iff)
next
  fix k response
  assume h: "is_available p \<and> k < 3
        \<and> (\<forall>j<k. world (kind p) (api_call p (arg_prompt a) (arg_max_tokens a) (arg_temperature a)
                      (arg_kwargs a)) j = RateLimited)
        \<and> world (kind p) (api_call p (arg_prompt a) (arg_max_tokens a) (arg_temperature a)
                      (arg_kwargs a)) k = Completion response
        \<and> length (strip response) < 10"
  then have "provider_generate world p (arg_prompt a) (arg_max_tokens a) (arg_temperature a) (arg_kwargs a) =
     settle (world (kind p) (api_call p (arg_prompt a) (arg_max_tokens a) (arg_temperature a) (arg_kwargs a)) k)
       \<lparr>backend_calls = k + 1, sleeps = map (\<lambda>j. 2 ^ j) [0..<k]\<rparr>"
    by (intro provider_generate_settles) simp_all
  with h show "provider_call world a p =
      (Inl InvalidResponse, \<lparr>backend_calls = k + 1, sleeps = map (\<lambda>j. 2 ^ j) [0..<k]\<rparr>)"
    by (simp add: provider_call_def settle_def validate_response_iff)
next
  fix tr
  assume "provider_call world a p = (Inl InvalidResponse, tr) \<and> arg_fallback a \<and> idx \<noteq> n - 1"
  then show "try_providers lib world t_set a n idx (p # rest) last_error eff =
              try_providers lib world t_set a n (idx + 1) rest (Some InvalidResponse)
                (eff\<lparr>invoked := invoked eff @ [(provider_name p, tr)]\<rparr>)"
    by (simp add: Let_def)
qed

lemma strip_ok: "strip ''  ok  '' = ''ok''"
  by (simp add: strip_def isspace_def)

lemma strip_openai_answer: "strip ''an answer from openai'' = ''an answer from openai''"
  by (simp add: strip_def isspace_def)

theorem response_validity_threshold_witness:
  "provider_call short_answer plain_args openai_ready =
     (Inr ''an answer from openai'', \<lparr>backend_calls = 1, sleeps = []\<rparr>)
   \<and> 10 \<le> length (strip ''an answer from openai'')
   \<and> length (strip ''  ok  '') < 10
   \<and> provider_call short_answer plain_args claude_ready =
        (Inl InvalidResponse, \<lparr>backend_calls = 1, sleeps = []\<rparr>)
   \<and> try_providers small_stdlib short_answer 0 plain_args 2 0 [claude_ready, openai_ready] None
        \<lparr>cache = Map.empty, invoked = []\<rparr> =
      (Inr ''an answer from openai'',
       \<lparr>cache = Map.empty,
        invoked = [(''claude'', \<lparr>backend_calls = 1, sleeps = []\<rparr>),
                   (''openai'', \<lparr>backend_calls = 1, sleeps = []\<rparr>)]\<rparr>)"
proof -
  note thm1 = response_validity_threshold [of short_answer plain_args openai_ready 0 2
      small_stdlib 0 "[]" None "\<lparr>cache = Map.empty, invoked = []\<rparr>"]
  note thm2 = response_validity_threshold [of short_answer plain_args claude_ready 0 2
      small_stdlib 0 "[openai_ready]" None "\<lparr>cache = Map.empty, invoked = []\<rparr>"]
  have ok: "provider_call short_answer plain_args openai_ready =
     (Inr ''an answer from openai'', \<lparr>backend_calls = 1, sleeps = []\<rparr>)"
    by (simp add: provider_call_def provider_generate_unrolled short_answer_def plain_args_def
        openai_ready_def is_available_def settle_def validate_response_iff strip_openai_answer)
  with thm1 have long: "10 \<le> length (strip ''an answer from openai'')"
    by blast
  have short: "length (strip ''  ok  '') < 10"
    by (simp add: strip_ok)
  have "is_available claude_ready \<and> (0::nat) < 3
        \<and> (\<forall>j<0. short_answer (kind claude_ready) (api_call claude_ready (arg_prompt plain_args)
              (arg_max_tokens plain_args) (arg_temperature plain_args) (arg_kwargs plain_args)) j
              = RateLimited)
        \<and> short_answer (kind claude_ready) (api_call claude_ready (arg_prompt plain_args)
              (arg_max_tokens plain_args) (arg_temperature plain_args) (arg_kwargs plain_args)) 0
              = Completion ''  ok  ''
        \<and> length (strip ''  ok  '') < 10"
    using short by (simp add: is_available_def claude_ready_def short_answer_def)
  with thm2 have "provider_call short_answer plain_args claude_ready =
        (Inl InvalidResponse, \<lparr>backend_calls = 0 + 1, sleeps = map (\<lambda>j. 2 ^ j) [0..<0]\<rparr>)"
    by blast
  then have bad: "provider_call short_answer plain_args claude_ready =
        (Inl InvalidResponse, \<lparr>backend_calls = 1, sleeps = []\<rparr>)"
    by simp
  have "provider_call short_answer plain_args claude_ready =
          (Inl InvalidResponse, \<lparr>backend_calls = 1, sleeps = []\<rparr>)
        \<and> arg_fallback plain_args \<and> (0::nat) \<noteq> 2 - 1"
    using bad by (simp add: plain_args_def)
  with thm2 have "try_providers small_stdlib short_answer 0 plain_args 2 0
        (claude_ready # [openai_ready]) None \<lparr>cache = Map.empty, invoked = []\<rparr> =
      try_providers small_stdlib short_answer 0 plain_args 2 (0 + 1) [openai_ready]
        (Some InvalidResponse)
        (\<lparr>cache = Map.empty, invoked = []\<rparr>
           \<lparr>invoked := invoked \<lparr>cache = Map.empty, invoked = []\<rparr>
              @ [(provider_name claude_ready, \<lparr>backend_calls = 1, sleeps = []\<rparr>)]\<rparr>)"
    by blast
  also have "\<dots> = (Inr ''an answer from openai'',
       \<lparr>cache = Map.empty,
        invoked = [(''claude'', \<lparr>backend_calls = 1, sleeps = []\<rparr>),
                   (''openai'', \<lparr>backend_calls = 1, sleeps = []\<rparr>)]\<rparr>)"
    using ok by (simp add: provider_name_def claude_ready_def openai_ready_def plain_args_def
        cache_response_def)
  finally have chain: "try_providers small_stdlib short_answer 0 plain_args 2 0
        [claude_ready, openai_ready] None \<lparr>cache = Map.empty, invoked = []\<rparr> =
      (Inr ''an answer from openai'',
       \<lparr>cache = Map.empty,
        invoked = [(''claude'', \<lparr>backend_calls = 1, sleeps = []\<rparr>),
                   (''openai'', \<lparr>backend_calls = 1, sleeps = []\<rparr>)]\<rparr>)" .
  from ok long short bad chain show ?thesis by blast
qed

section \<open>The cache key\<close>

lemma sort_key_fst_same_items:
  assumes "distinct (map fst xs)" and "distinct (map fst ys)" and "set xs = set ys"
  shows "sort_key fst xs = sort_key fst ys"
proof (rule sort_key_inj_key_eq)
  from assms(1) have dx: "distinct xs" and inj: "inj_on fst (set xs)"
    by (simp_all add: distinct_map)
  from assms(2) have dy: "distinct ys"
    by (simp add: distinct_map)
  from dx dy assms(3) have "mset xs = mset ys"
    by (simp add: set_eq_iff_mset_eq_distinct)
  then show "mset xs = mset (sort_key fst ys)"
    by simp
  show "inj_on fst (set xs)"
    by (rule inj)
  show "sorted (map fst (sort_key fst ys))"
    by simp
qed

lemma filter_sorted_drop_None:
  "filter (\<lambda>(k, v). v \<noteq> PNone) (sort_key fst (before @ (k, PNone) # after)) =
   filter (\<lambda>(k, v). v \<noteq> PNone) (sort_key fst (before @ after))"
  by (simp add: filter_sort)

text \<open>
  C3. The cache key of a prompt, a task classification and a keyword dict does not depend
  on the order in which the keywords were given (two dicts with the same items, each with
  distinct keys, as Python dicts have), and a keyword whose value is \<open>None\<close>, wherever it is
  placed, does not change the key.
\<close>

theorem cache_key_determinism:
  "(distinct (map fst kwargs) \<and> distinct (map fst kwargs') \<and> set kwargs = set kwargs'
      \<longrightarrow> generate_cache_key lib prompt mdl kwargs = generate_cache_key lib prompt mdl kwargs')
   \<and> generate_cache_key lib prompt mdl (before @ (k, PNone) # after) =
       generate_cache_key lib prompt mdl (before @ after)"
proof (intro conjI impI)
  assume "distinct (map fst kwargs) \<and> distinct (map fst kwargs') \<and> set kwargs = set kwargs'"
  then have "sort_key fst kwargs = sort_key fst kwargs'"
    by (intro sort_key_fst_same_items) simp_all
  then show "generate_cache_key lib prompt mdl kwargs = generate_cache_key lib prompt mdl kwargs'"
    by (simp add: generate_cache_key_def)
next
  show "generate_cache_key lib prompt mdl (before @ (k, PNone) # after) =
       generate_cache_key lib prompt mdl (before @ after)"
    unfolding generate_cache_key_def filter_sorted_drop_None ..
qed

lemma key_of_two_keywords:
  "generate_cache_key small_stdlib ''p'' ''simple''
      [(''temperature'', PStr ''0.7''), (''max_tokens'', PStr ''2000'')]
    = ''max_tokens=2000;model=simple;prompt=p;temperature=0.7;''"
  by code_simp

theorem cache_key_determinism_witness:
  "distinct (map fst [(''temperature'', PStr ''0.7''), (''max_tokens'', PStr ''2000'')])
   \<and> distinct (map fst [(''max_tokens'', PStr ''2000''), (''temperature'', PStr ''0.7'')])
   \<and> set [(''temperature'', PStr ''0.7''), (''max_tokens'', PStr ''2000'')]
       = set [(''max_tokens'', PStr ''2000''), (''temperature'', PStr ''0.7'')]
   \<and> generate_cache_key small_stdlib ''p'' ''simple''
        [(''max_tokens'', PStr ''2000''), (''temperature'', PStr ''0.7'')]
       = ''max_tokens=2000;model=simple;prompt=p;temperature=0.7;''
   \<and> generate_cache_key small_stdlib ''p'' ''simple''
        [(''temperature'', PStr ''0.7''), (''system'', PNone), (''max_tokens'', PStr ''2000'')]
       = ''max_tokens=2000;model=simple;prompt=p;temperature=0.7;''"
proof -
  have d1: "distinct (map fst [(''temperature'', PStr ''0.7''), (''max_tokens'', PStr ''2000'')])"
    and d2: "distinct (map fst [(''max_tokens'', PStr ''2000''), (''temperature'', PStr ''0.7'')])"
    by simp_all
  have same: "set [(''temperature'', PStr ''0.7''), (''max_tokens'', PStr ''2000'')]
       = set [(''max_tokens'', PStr ''2000''), (''temperature'', PStr ''0.7'')]"
    by auto
  note inst = cache_key_determinism [of
      "[(''temperature'', PStr ''0.7''), (''max_tokens'', PStr ''2000'')]"
      "[(''max_tokens'', PStr ''2000''), (''temperature'', PStr ''0.7'')]"
      small_stdlib "''p''" "''simple''"
      "[(''temperature'', PStr ''0.7'')]" "''system''" "[(''max_tokens'', PStr ''2000'')]"]
  from inst d1 d2 same have swapped: "generate_cache_key small_stdlib ''p'' ''simple''
        [(''max_tokens'', PStr ''2000''), (''temperature'', PStr ''0.7'')]
       = ''max_tokens=2000;model=simple;prompt=p;temperature=0.7;''"
    using key_of_two_keywords by simp
  from inst have "generate_cache_key small_stdlib ''p'' ''simple''
        ([(''temperature'', PStr ''0.7'')] @ (''system'', PNone) # [(''max_tokens'', PStr ''2000'')])
       = generate_cache_key small_stdlib ''p'' ''simple''
        ([(''temperature'', PStr ''0.7'')] @ [(''max_tokens'', PStr ''2000'')])"
    by blast
  then have with_none: "generate_cache_key small_stdlib ''p'' ''simple''
        [(''temperature'', PStr ''0.7''), (''system'', PNone), (''max_tokens'', PStr ''2000'')]
       = ''max_tokens=2000;model=simple;prompt=p;temperature=0.7;''"
    using key_of_two_keywords by simp
  from d1 d2 same swapped with_none show ?thesis by blast
qed

section \<open>Cache expiry\<close>



section \<open>Routing\<close>





















section \<open>The fallback executor\<close>

lemma attempt_record_call:
  "provider_call world a q = (res, tr) \<Longrightarrow> attempt_record world a q = (provider_name q, tr)"
  by (simp add: attempt_record_def)

lemma try_providers_success:
  assumes "n = idx + length ps" and "arg_fallback a \<or> length ps \<le> 1" and "j < length ps"
    and "\<forall>i<j. \<exists>e. fst (provider_call world a (ps ! i)) = Inl e"
    and "fst (provider_call world a (ps ! j)) = Inr r"
  shows "try_providers lib world t_set a n idx ps last_error eff =
     (Inr r, cache_response lib t_set a r
               (eff\<lparr>invoked := invoked eff @ map (attempt_record world a) (take (Suc j) ps)\<rparr>))"
  using assms
proof (induction ps arbitrary: idx j last_error eff)
  case Nil
  then show ?case by simp
next
  case (Cons q qs)
  obtain res tr where call: "provider_call world a q = (res, tr)"
    by (cases "provider_call world a q")
  show ?case
  proof (cases j)
    case 0
    with Cons.prems(5) call have "res = Inr r" by simp
    with 0 call show ?thesis
      by (simp add: attempt_record_call)
  next
    case (Suc j')
    with Cons.prems(4) obtain e where "fst (provider_call world a q) = Inl e"
      by fastforce
    with call have res: "res = Inl e" by simp
    from Suc Cons.prems(3) have long: "qs \<noteq> []" "j' < length qs" by auto
    with Cons.prems(2) have fb: "arg_fallback a" by (cases qs) auto
    from long Cons.prems(1) have not_last: "idx \<noteq> n - 1" by (cases qs) auto
    have prev: "\<forall>i<j'. \<exists>e. fst (provider_call world a (qs ! i)) = Inl e"
      using Cons.prems(4) Suc by fastforce
    have hit: "fst (provider_call world a (qs ! j')) = Inr r"
      using Cons.prems(5) Suc by simp
    have "try_providers lib world t_set a n (idx + 1) qs (Some e)
            (eff\<lparr>invoked := invoked eff @ [(provider_name q, tr)]\<rparr>) =
          (Inr r, cache_response lib t_set a r
             ((eff\<lparr>invoked := invoked eff @ [(provider_name q, tr)]\<rparr>)
                \<lparr>invoked := invoked (eff\<lparr>invoked := invoked eff @ [(provider_name q, tr)]\<rparr>)
                     @ map (attempt_record world a) (take (Suc j') qs)\<rparr>))"
      using Cons.prems(1) fb long(2) prev hit by (intro Cons.IH) simp_all
    with call res fb not_last Suc show ?thesis
      by (simp add: attempt_record_call)
  qed
qed

lemma try_providers_all_fail:
  assumes "n = idx + length ps" and "arg_fallback a \<or> length ps \<le> 1" and "ps \<noteq> []"
    and "\<forall>q\<in>set ps. \<exists>e. fst (provider_call world a q) = Inl e"
  shows "\<exists>e. fst (provider_call world a (last ps)) = Inl e
     \<and> try_providers lib world t_set a n idx ps last_error eff =
         (Inl (AllProvidersFailed (Some e)),
          eff\<lparr>invoked := invoked eff @ map (attempt_record world a) ps\<rparr>)"
  using assms
proof (induction ps arbitrary: idx last_error eff)
  case Nil
  then show ?case by simp
next
  case (Cons q qs)
  obtain res tr where call: "provider_call world a q = (res, tr)"
    by (cases "provider_call world a q")
  from Cons.prems(4) obtain e where "fst (provider_call world a q) = Inl e"
    by fastforce
  with call have res: "res = Inl e" by simp
  show ?case
  proof (cases "qs = []")
    case True
    with Cons.prems(1) have "idx = n - 1" by simp
    with True call res show ?thesis
      by (simp add: attempt_record_call)
  next
    case False
    with Cons.prems(2) have fb: "arg_fallback a" by (cases qs) auto
    from False Cons.prems(1) have not_last: "idx \<noteq> n - 1" by (cases qs) auto
    from Cons.prems(4) have rest: "\<forall>q\<in>set qs. \<exists>e. fst (provider_call world a q) = Inl e"
      by simp
    have "\<exists>e'. fst (provider_call world a (last qs)) = Inl e'
       \<and> try_providers lib world t_set a n (idx + 1) qs (Some e)
            (eff\<lparr>invoked := invoked eff @ [(provider_name q, tr)]\<rparr>) =
          (Inl (AllProvidersFailed (Some e')),
           (eff\<lparr>invoked := invoked eff @ [(provider_name q, tr)]\<rparr>)
             \<lparr>invoked := invoked (eff\<lparr>invoked := invoked eff @ [(provider_name q, tr)]\<rparr>)
                  @ map (attempt_record world a) qs\<rparr>)"
      using Cons.prems(1) fb False rest by (intro Cons.IH) simp_all
    with call res fb not_last False show ?thesis
      by (auto simp: attempt_record_call)
  qed
qed

lemma providers_to_try_shape:
  "providers_to_try m p fallback =
     p # (if fallback then filter (\<lambda>q. q \<noteq> p) (map snd (available_providers m)) else [])"
  by (simp add: providers_to_try_def filter_map comp_def split_def)

lemma providers_to_try_bounds:
  "providers_to_try m p fallback \<noteq> []"
  "fallback \<or> length (providers_to_try m p fallback) \<le> 1"
  by (simp_all add: providers_to_try_shape)

lemma generate_after_miss:
  assumes "fst (cache_lookup lib dir t_get a) = None \<or> fst (cache_lookup lib dir t_get a) = Some []"
    and "get_provider m (arg_provider_name a) (arg_task_type a) = (Some p, m1)"
  shows "generate lib world m dir t_get t_set a =
     (case try_providers lib world t_set a (length (providers_to_try m1 p (arg_fallback a))) 0
             (providers_to_try m1 p (arg_fallback a)) None
             \<lparr>cache = snd (cache_lookup lib dir t_get a), invoked = []\<rparr> of
        (result, eff) \<Rightarrow> (result, m1, eff))"
  using assms
  by (cases "cache_lookup lib dir t_get a") (auto simp: generate_def Let_def)

text \<open>
  C1 (as the code has it). Once the cache lookup has missed (or caching is off, or the
  cached text is empty) and routing has returned a primary provider, the candidates are the
  primary followed, when the request's fallback flag is set, by every other available
  provider in the manager's order; with the flag off the primary is the only candidate.
  The executor calls the candidates in that order. At the first candidate whose generate
  succeeds it returns that provider's text, having called exactly the candidates up to that
  one, and the text is written to the cache when caching is enabled. If all N candidates
  fail it has made exactly N calls, in order, writes nothing, and raises the
  all-providers-failed error carrying the error of the last candidate.
\<close>

theorem fallback_executor:
  "(fst (cache_lookup lib dir t_get a) = None \<or> fst (cache_lookup lib dir t_get a) = Some [])
   \<and> get_provider m (arg_provider_name a) (arg_task_type a) = (Some p, m1) \<longrightarrow>
     providers_to_try m1 p (arg_fallback a) =
       p # (if arg_fallback a then filter (\<lambda>q. q \<noteq> p) (map snd (available_providers m1)) else [])
     \<and> (\<forall>j r. j < length (providers_to_try m1 p (arg_fallback a))
           \<and> (\<forall>i<j. \<exists>e. fst (provider_call world a (providers_to_try m1 p (arg_fallback a) ! i)) = Inl e)
           \<and> fst (provider_call world a (providers_to_try m1 p (arg_fallback a) ! j)) = Inr r
         \<longrightarrow> generate lib world m dir t_get t_set a =
               (Inr r, m1,
                \<lparr>cache = (if arg_use_cache a
                           then cache_set lib (snd (cache_lookup lib dir t_get a)) t_set
                                  (arg_prompt a) (arg_task_type a) r []
                           else snd (cache_lookup lib dir t_get a)),
                 invoked = map (attempt_record world a)
                             (take (Suc j) (providers_to_try m1 p (arg_fallback a)))\<rparr>))
     \<and> ((\<forall>q\<in>set (providers_to_try m1 p (arg_fallback a)). \<exists>e. fst (provider_call world a q) = Inl e)
         \<longrightarrow> (\<exists>e. fst (provider_call world a (last (providers_to_try m1 p (arg_fallback a)))) = Inl e
               \<and> generate lib world m dir t_get t_set a =
                   (Inl (AllProvidersFailed (Some e)), m1,
                    \<lparr>cache = snd (cache_lookup lib dir t_get a),
                     invoked = map (attempt_record world a)
                                 (providers_to_try m1 p (arg_fallback a))\<rparr>)))"
proof (intro impI conjI allI)
  show "providers_to_try m1 p (arg_fallback a) =
       p # (if arg_fallback a then filter (\<lambda>q. q \<noteq> p) (map snd (available_providers m1)) else [])"
    by (rule providers_to_try_shape)
next
  fix j r
  assume pre: "(fst (cache_lookup lib dir t_get a) = None \<or> fst (cache_lookup lib dir t_get a) = Some [])
      \<and> get_provider m (arg_provider_name a) (arg_task_type a) = (Some p, m1)"
    and h: "j < length (providers_to_try m1 p (arg_fallback a))
           \<and> (\<forall>i<j. \<exists>e. fst (provider_call world a (providers_to_try m1 p (arg_fallback a) ! i)) = Inl e)
           \<and> fst (provider_call world a (providers_to_try m1 p (arg_fallback a) ! j)) = Inr r"
  let ?ps = "providers_to_try m1 p (arg_fallback a)"
  let ?eff0 = "\<lparr>cache = snd (cache_lookup lib dir t_get a), invoked = []\<rparr>"
  have "try_providers lib world t_set a (length ?ps) 0 ?ps None ?eff0 =
     (Inr r, cache_response lib t_set a r
               (?eff0\<lparr>invoked := invoked ?eff0 @ map (attempt_record world a) (take (Suc j) ?ps)\<rparr>))"
    using h providers_to_try_bounds(2)
    by (intro try_providers_success) simp_all
  with pre show "generate lib world m dir t_get t_set a =
               (Inr r, m1,
                \<lparr>cache = (if arg_use_cache a
                           then cache_set lib (snd (cache_lookup lib dir t_get a)) t_set
                                  (arg_prompt a) (arg_task_type a) r []
                           else snd (cache_lookup lib dir t_get a)),
                 invoked = map (attempt_record world a) (take (Suc j) ?ps)\<rparr>)"
    by (simp add: generate_after_miss cache_response_def)
next
  assume pre: "(fst (cache_lookup lib dir t_get a) = None \<or> fst (cache_lookup lib dir t_get a) = Some [])
      \<and> get_provider m (arg_provider_name a) (arg_task_type a) = (Some p, m1)"
    and h: "\<forall>q\<in>set (providers_to_try m1 p (arg_fallback a)). \<exists>e. fst (provider_call world a q) = Inl e"
  let ?ps = "providers_to_try m1 p (arg_fallback a)"
  let ?eff0 = "\<lparr>cache = snd (cache_lookup lib dir t_get a), invoked = []\<rparr>"
  have "\<exists>e. fst (provider_call world a (last ?ps)) = Inl e
     \<and> try_providers lib world t_set a (length ?ps) 0 ?ps None ?eff0 =
         (Inl (AllProvidersFailed (Some e)),
          ?eff0\<lparr>invoked := invoked ?eff0 @ map (attempt_record world a) ?ps\<rparr>)"
    using h providers_to_try_bounds
    by (intro try_providers_all_fail) simp_all
  then obtain e where e: "fst (provider_call world a (last ?ps)) = Inl e"
    and run: "try_providers lib world t_set a (length ?ps) 0 ?ps None ?eff0 =
         (Inl (AllProvidersFailed (Some e)),
          ?eff0\<lparr>invoked := invoked ?eff0 @ map (attempt_record world a) ?ps\<rparr>)"
    by blast
  from pre run have "generate lib world m dir t_get t_set a =
                   (Inl (AllProvidersFailed (Some e)), m1,
                    \<lparr>cache = snd (cache_lookup lib dir t_get a),
                     invoked = map (attempt_record world a) ?ps\<rparr>)"
    by (simp add: generate_after_miss)
  with e show "\<exists>e. fst (provider_call world a (last ?ps)) = Inl e
               \<and> generate lib world m dir t_get t_set a =
                   (Inl (AllProvidersFailed (Some e)), m1,
                    \<lparr>cache = snd (cache_lookup lib dir t_get a),
                     invoked = map (attempt_record world a) ?ps\<rparr>)"
    by blast
qed

lemma all_ready_objects:
  "provider_object (LLMManager_init True True True) Claude = claude_ready"
  "provider_object (LLMManager_init True True True) OpenAI = openai_ready"
  "provider_object (LLMManager_init True True True) Bedrock = bedrock_ready"
  by (simp_all add: provider_object_def LLMManager_init_def DEFAULT_MODEL_def claude_ready_def
      openai_ready_def bedrock_ready_def)

lemma all_ready_available:
  "available_providers (LLMManager_init True True True) =
     [(''claude'', claude_ready), (''openai'', openai_ready), (''bedrock'', bedrock_ready)]"
  unfolding available_providers_def providers_def all_ready_objects
  by (simp add: is_available_def claude_ready_def openai_ready_def bedrock_ready_def)

lemma all_ready_chain:
  "providers_to_try (LLMManager_init True True True) claude_ready True =
     [claude_ready, openai_ready, bedrock_ready]"
  "providers_to_try (LLMManager_init True True True) claude_ready False = [claude_ready]"
  unfolding providers_to_try_shape all_ready_available
  by (simp_all add: claude_ready_def openai_ready_def bedrock_ready_def)

lemma all_ready_general:
  "get_provider (LLMManager_init True True True) None ''general'' =
     (Some claude_ready, LLMManager_init True True True)"
  by (simp add: get_provider_def route_by_task_def default_provider_def all_ready_available)

lemma lookup_in_empty_dir: "cache_lookup lib Map.empty t_get a = (None, Map.empty)"
  by (simp add: cache_lookup_def cache_get_def Let_def)

lemma strip_bedrock_answer: "strip ''an answer from bedrock'' = ''an answer from bedrock''"
  by (simp add: strip_def isspace_def)

lemma calls_when_claude_down:
  "provider_call claude_down a claude_ready =
     (Inl (ApiError ''overloaded''), \<lparr>backend_calls = 1, sleeps = []\<rparr>)"
  "provider_call claude_down a openai_ready =
     (Inr ''an answer from openai'', \<lparr>backend_calls = 1, sleeps = []\<rparr>)"
  by (simp_all add: provider_call_def provider_generate_unrolled claude_down_def claude_ready_def
      openai_ready_def is_available_def settle_def validate_response_iff strip_openai_answer)

lemma calls_when_all_down:
  "provider_call all_down a claude_ready =
     (Inl (ApiError ''claude is down''), \<lparr>backend_calls = 1, sleeps = []\<rparr>)"
  "provider_call all_down a openai_ready =
     (Inl (ApiError ''openai is down''), \<lparr>backend_calls = 1, sleeps = []\<rparr>)"
  "provider_call all_down a bedrock_ready =
     (Inl (ApiError ''bedrock is down''), \<lparr>backend_calls = 1, sleeps = []\<rparr>)"
  by (simp_all add: provider_call_def provider_generate_unrolled all_down_def claude_ready_def
      openai_ready_def bedrock_ready_def is_available_def settle_def)

lemma ready_names:
  "provider_name claude_ready = ''claude''"
  "provider_name openai_ready = ''openai''"
  "provider_name bedrock_ready = ''bedrock''"
  by (simp_all add: provider_name_def claude_ready_def openai_ready_def bedrock_ready_def)

theorem fallback_executor_witness:
  "generate small_stdlib claude_down (LLMManager_init True True True) Map.empty 0 5 cached_args =
     (Inr ''an answer from openai'', LLMManager_init True True True,
      \<lparr>cache = cache_set small_stdlib Map.empty 5 ''Write a hook'' ''general''
                 ''an answer from openai'' [],
       invoked = [(''claude'', \<lparr>backend_calls = 1, sleeps = []\<rparr>),
                  (''openai'', \<lparr>backend_calls = 1, sleeps = []\<rparr>)]\<rparr>)
   \<and> generate small_stdlib all_down (LLMManager_init True True True) Map.empty 0 5 cached_args =
     (Inl (AllProvidersFailed (Some (ApiError ''bedrock is down''))), LLMManager_init True True True,
      \<lparr>cache = Map.empty,
       invoked = [(''claude'', \<lparr>backend_calls = 1, sleeps = []\<rparr>),
                  (''openai'', \<lparr>backend_calls = 1, sleeps = []\<rparr>),
                  (''bedrock'', \<lparr>backend_calls = 1, sleeps = []\<rparr>)]\<rparr>)"
proof -
  let ?m = "LLMManager_init True True True"
  have args: "arg_provider_name cached_args = None" "arg_task_type cached_args = ''general''"
    "arg_fallback cached_args" "arg_use_cache cached_args" "arg_prompt cached_args = ''Write a hook''"
    by (simp_all add: cached_args_def plain_args_def)
  have pre: "(fst (cache_lookup small_stdlib Map.empty 0 cached_args) = None
       \<or> fst (cache_lookup small_stdlib Map.empty 0 cached_args) = Some [])
      \<and> get_provider ?m (arg_provider_name cached_args) (arg_task_type cached_args)
          = (Some claude_ready, ?m)"
    by (simp add: lookup_in_empty_dir args all_ready_general)
  have chain: "providers_to_try ?m claude_ready (arg_fallback cached_args) =
      [claude_ready, openai_ready, bedrock_ready]"
    by (simp add: args all_ready_chain)
  note first = fallback_executor [of small_stdlib Map.empty 0 cached_args ?m claude_ready ?m
      claude_down 5]
  have "(1::nat) < length (providers_to_try ?m claude_ready (arg_fallback cached_args))
      \<and> (\<forall>i<1. \<exists>e. fst (provider_call claude_down cached_args
             (providers_to_try ?m claude_ready (arg_fallback cached_args) ! i)) = Inl e)
      \<and> fst (provider_call claude_down cached_args
             (providers_to_try ?m claude_ready (arg_fallback cached_args) ! 1))
          = Inr ''an answer from openai''"
    by (simp add: chain calls_when_claude_down)
  with first pre have "generate small_stdlib claude_down ?m Map.empty 0 5 cached_args =
      (Inr ''an answer from openai'', ?m,
       \<lparr>cache = (if arg_use_cache cached_args
                  then cache_set small_stdlib (snd (cache_lookup small_stdlib Map.empty 0 cached_args)) 5
                         (arg_prompt cached_args) (arg_task_type cached_args)
                         ''an answer from openai'' []
                  else snd (cache_lookup small_stdlib Map.empty 0 cached_args)),
        invoked = map (attempt_record claude_down cached_args)
                    (take (Suc 1) (providers_to_try ?m claude_ready (arg_fallback cached_args)))\<rparr>)"
    by blast
  then have one: "generate small_stdlib claude_down ?m Map.empty 0 5 cached_args =
     (Inr ''an answer from openai'', ?m,
      \<lparr>cache = cache_set small_stdlib Map.empty 5 ''Write a hook'' ''general''
                 ''an answer from openai'' [],
       invoked = [(''claude'', \<lparr>backend_calls = 1, sleeps = []\<rparr>),
                  (''openai'', \<lparr>backend_calls = 1, sleeps = []\<rparr>)]\<rparr>)"
    by (simp add: all_ready_chain args lookup_in_empty_dir attempt_record_def
        calls_when_claude_down ready_names)
  note second = fallback_executor [of small_stdlib Map.empty 0 cached_args ?m claude_ready ?m
      all_down 5]
  have "\<forall>q\<in>set (providers_to_try ?m claude_ready (arg_fallback cached_args)).
          \<exists>e. fst (provider_call all_down cached_args q) = Inl e"
    by (simp add: chain calls_when_all_down)
  with second pre obtain e where
    e: "fst (provider_call all_down cached_args
           (last (providers_to_try ?m claude_ready (arg_fallback cached_args)))) = Inl e"
    and run: "generate small_stdlib all_down ?m Map.empty 0 5 cached_args =
       (Inl (AllProvidersFailed (Some e)), ?m,
        \<lparr>cache = snd (cache_lookup small_stdlib Map.empty 0 cached_args),
         invoked = map (attempt_record all_down cached_args)
                     (providers_to_try ?m claude_ready (arg_fallback cached_args))\<rparr>)"
    by blast
  from e have "e = ApiError ''bedrock is down''"
    by (simp add: chain calls_when_all_down)
  with run have two: "generate small_stdlib all_down ?m Map.empty 0 5 cached_args =
     (Inl (AllProvidersFailed (Some (ApiError ''bedrock is down''))), ?m,
      \<lparr>cache = Map.empty,
       invoked = [(''claude'', \<lparr>backend_calls = 1, sleeps = []\<rparr>),
                  (''openai'', \<lparr>backend_calls = 1, sleeps = []\<rparr>),
                  (''bedrock'', \<lparr>backend_calls = 1, sleeps = []\<rparr>)]\<rparr>)"
    by (simp add: all_ready_chain args lookup_in_empty_dir attempt_record_def
        calls_when_all_down ready_names)
  from one two show ?thesis by blast
qed

text \<open>
  The claim's "and then each other available provider" fails for a request whose fallback
  flag is off: the primary is the only candidate. With Claude failing and OpenAI and Bedrock
  available (OpenAI would answer), the executor calls Claude alone and raises.
\<close>

theorem no_fallback_counterexample:
  "generate small_stdlib claude_down (LLMManager_init True True True) Map.empty 0 5 no_fallback_args =
     (Inl (AllProvidersFailed (Some (ApiError ''overloaded''))), LLMManager_init True True True,
      \<lparr>cache = Map.empty, invoked = [(''claude'', \<lparr>backend_calls = 1, sleeps = []\<rparr>)]\<rparr>)
   \<and> map fst (available_providers (LLMManager_init True True True)) = [''claude'', ''openai'', ''bedrock'']
   \<and> provider_call claude_down no_fallback_args openai_ready =
       (Inr ''an answer from openai'', \<lparr>backend_calls = 1, sleeps = []\<rparr>)"
proof -
  have args: "arg_provider_name no_fallback_args = None" "arg_task_type no_fallback_args = ''general''"
    "\<not> arg_fallback no_fallback_args" "\<not> arg_use_cache no_fallback_args"
    by (simp_all add: no_fallback_args_def plain_args_def)
  have "generate small_stdlib claude_down (LLMManager_init True True True) Map.empty 0 5 no_fallback_args =
     (Inl (AllProvidersFailed (Some (ApiError ''overloaded''))), LLMManager_init True True True,
      \<lparr>cache = Map.empty, invoked = [(''claude'', \<lparr>backend_calls = 1, sleeps = []\<rparr>)]\<rparr>)"
    by (simp add: generate_def lookup_in_empty_dir args all_ready_general all_ready_chain
        calls_when_claude_down ready_names)
  then show ?thesis
    by (simp add: all_ready_available calls_when_claude_down)
qed

section \<open>What the cache is keyed on in generate\<close>

lemma try_providers_Inr:
  "try_providers lib world t_set a n idx ps last_error eff = (Inr r, eff') \<Longrightarrow>
     validate_response r \<and> cache eff' = cache (cache_response lib t_set a r eff) \<and> invoked eff' \<noteq> []"
proof (induction ps arbitrary: idx last_error eff)
  case Nil
  then show ?case by simp
next
  case (Cons q qs)
  obtain res tr where call: "provider_call world a q = (res, tr)"
    by (cases "provider_call world a q")
  show ?case
  proof (cases res)
    case (Inr response)
    with call Cons.prems have r: "response = r"
      and eff': "eff' = cache_response lib t_set a r (eff\<lparr>invoked := invoked eff @ [(provider_name q, tr)]\<rparr>)"
      by auto
    from call Inr r have "validate_response r"
      unfolding provider_call_def by (auto dest: provider_generate_valid)
    with eff' show ?thesis
      by (simp add: cache_response_def)
  next
    case (Inl e)
    show ?thesis
    proof (cases "\<not> arg_fallback a \<or> idx = n - 1")
      case True
      with call Inl Cons.prems show ?thesis by auto
    next
      case False
      with call Inl Cons.prems
      have "try_providers lib world t_set a n (idx + 1) qs (Some e)
              (eff\<lparr>invoked := invoked eff @ [(provider_name q, tr)]\<rparr>) = (Inr r, eff')"
        by simp
      from Cons.IH [OF this] show ?thesis
        by (simp add: cache_response_def)
    qed
  qed
qed

lemma generate_fresh_answer:
  assumes "generate lib world m dir t_get t_set a = (Inr r, m', eff)" and "invoked eff \<noteq> []"
  shows "validate_response r
     \<and> cache eff = cache (cache_response lib t_set a r
                             \<lparr>cache = snd (cache_lookup lib dir t_get a), invoked = []\<rparr>)"
proof -
  obtain cached dir1 where look: "cache_lookup lib dir t_get a = (cached, dir1)"
    by (cases "cache_lookup lib dir t_get a")
  have miss: "\<not> (cached \<noteq> None \<and> cached \<noteq> Some [])"
    using assms look by (auto simp: generate_def Let_def split: if_splits)
  obtain sel m1 where route: "get_provider m (arg_provider_name a) (arg_task_type a) = (sel, m1)"
    by (cases "get_provider m (arg_provider_name a) (arg_task_type a)")
  from assms(1) look miss route obtain p where sel: "sel = Some p"
    by (cases sel) (auto simp: generate_def Let_def split: if_splits)
  let ?ps = "providers_to_try m1 p (arg_fallback a)"
  from assms(1) look miss route sel
  have "try_providers lib world t_set a (length ?ps) 0 ?ps None \<lparr>cache = dir1, invoked = []\<rparr>
          = (Inr r, eff)"
    by (auto simp: generate_def Let_def split: prod.splits if_splits)
  from try_providers_Inr [OF this] look show ?thesis by simp
qed

lemma valid_not_empty: "validate_response r \<Longrightarrow> r \<noteq> []"
  by (auto simp: validate_response_def)

text \<open>
  C9. \<open>generate\<close> looks the cache up and writes it under the key of the prompt and the task
  type alone. So when a call with caching on got a fresh answer from a provider, the answer
  lies under that key, and any later call with caching on, the same prompt and the same task
  type, made within 168 hours of the write, returns that answer without calling a provider,
  whatever its max_tokens, temperature, provider choice, fallback flag and extra keywords,
  and whatever the backends and the manager are by then.
\<close>

theorem cache_ignores_generation_parameters:
  "arg_use_cache a1 \<and> arg_use_cache a2
   \<and> arg_prompt a2 = arg_prompt a1 \<and> arg_task_type a2 = arg_task_type a1
   \<and> generate lib world1 m1 dir t_get1 t_set1 a1 = (Inr r, m1', eff1) \<and> invoked eff1 \<noteq> []
   \<and> t_get2 - t_set1 \<le> timedelta_hours 168
   \<longrightarrow> cache eff1 (generate_cache_key lib (arg_prompt a1) (arg_task_type a1) []) =
         Some (Entry \<lparr>entry_prompt = arg_prompt a1, entry_model = arg_task_type a1,
                      entry_response = r, cached_at = t_set1, entry_parameters = []\<rparr>)
       \<and> generate lib world2 m2 (cache eff1) t_get2 t_set2 a2 =
           (Inr r, m2, \<lparr>cache = cache eff1, invoked = []\<rparr>)"
proof (intro impI)
  assume h: "arg_use_cache a1 \<and> arg_use_cache a2
   \<and> arg_prompt a2 = arg_prompt a1 \<and> arg_task_type a2 = arg_task_type a1
   \<and> generate lib world1 m1 dir t_get1 t_set1 a1 = (Inr r, m1', eff1) \<and> invoked eff1 \<noteq> []
   \<and> t_get2 - t_set1 \<le> timedelta_hours 168"
  then have fresh: "validate_response r
     \<and> cache eff1 = cache (cache_response lib t_set1 a1 r
                             \<lparr>cache = snd (cache_lookup lib dir t_get1 a1), invoked = []\<rparr>)"
    by (intro generate_fresh_answer) blast+
  with h have written: "cache eff1 =
      cache_set lib (snd (cache_lookup lib dir t_get1 a1)) t_set1 (arg_prompt a1)
        (arg_task_type a1) r []"
    by (simp add: cache_response_def)
  then have entry: "cache eff1 (generate_cache_key lib (arg_prompt a1) (arg_task_type a1) []) =
         Some (Entry \<lparr>entry_prompt = arg_prompt a1, entry_model = arg_task_type a1,
                      entry_response = r, cached_at = t_set1, entry_parameters = []\<rparr>)"
    by (simp add: cache_set_def Let_def)
  from fresh have nonempty: "r \<noteq> []"
    by (simp add: valid_not_empty)
  from h entry have "cache_lookup lib (cache eff1) t_get2 a2 = (Some r, cache eff1)"
    by (simp add: cache_lookup_def cache_get_def Let_def)
  with nonempty have "generate lib world2 m2 (cache eff1) t_get2 t_set2 a2 =
           (Inr r, m2, \<lparr>cache = cache eff1, invoked = []\<rparr>)"
    by (simp add: generate_def)
  with entry show "cache eff1 (generate_cache_key lib (arg_prompt a1) (arg_task_type a1) []) =
         Some (Entry \<lparr>entry_prompt = arg_prompt a1, entry_model = arg_task_type a1,
                      entry_response = r, cached_at = t_set1, entry_parameters = []\<rparr>)
       \<and> generate lib world2 m2 (cache eff1) t_get2 t_set2 a2 =
           (Inr r, m2, \<lparr>cache = cache eff1, invoked = []\<rparr>)"
    by blast
qed

lemma cached_run_when_claude_down:
  "generate small_stdlib claude_down (LLMManager_init True True True) Map.empty 0 5 cached_args =
     (Inr ''an answer from openai'', LLMManager_init True True True,
      \<lparr>cache = cache_set small_stdlib Map.empty 5 ''Write a hook'' ''general''
                 ''an answer from openai'' [],
       invoked = [(''claude'', \<lparr>backend_calls = 1, sleeps = []\<rparr>),
                  (''openai'', \<lparr>backend_calls = 1, sleeps = []\<rparr>)]\<rparr>)"
proof -
  have args: "arg_provider_name cached_args = None" "arg_task_type cached_args = ''general''"
    "arg_fallback cached_args" "arg_use_cache cached_args" "arg_prompt cached_args = ''Write a hook''"
    by (simp_all add: cached_args_def plain_args_def)
  show ?thesis
    by (simp add: generate_def lookup_in_empty_dir args all_ready_general all_ready_chain
        calls_when_claude_down ready_names cache_response_def)
qed

theorem cache_ignores_generation_parameters_witness:
  "generate small_stdlib claude_down (LLMManager_init True True True) Map.empty 0 5 cached_args =
     (Inr ''an answer from openai'', LLMManager_init True True True,
      \<lparr>cache = cache_set small_stdlib Map.empty 5 ''Write a hook'' ''general''
                 ''an answer from openai'' [],
       invoked = [(''claude'', \<lparr>backend_calls = 1, sleeps = []\<rparr>),
                  (''openai'', \<lparr>backend_calls = 1, sleeps = []\<rparr>)]\<rparr>)
   \<and> arg_max_tokens other_args \<noteq> arg_max_tokens cached_args
   \<and> arg_temperature other_args \<noteq> arg_temperature cached_args
   \<and> arg_provider_name other_args \<noteq> arg_provider_name cached_args
   \<and> arg_kwargs other_args \<noteq> arg_kwargs cached_args
   \<and> (10 :: int) - 5 \<le> timedelta_hours 168
   \<and> generate small_stdlib all_down (LLMManager_init False True False)
        (cache_set small_stdlib Map.empty 5 ''Write a hook'' ''general'' ''an answer from openai'' [])
        10 20 other_args =
       (Inr ''an answer from openai'', LLMManager_init False True False,
        \<lparr>cache = cache_set small_stdlib Map.empty 5 ''Write a hook'' ''general''
                   ''an answer from openai'' [],
         invoked = []\<rparr>)"
proof -
  let ?eff = "\<lparr>cache = cache_set small_stdlib Map.empty 5 ''Write a hook'' ''general''
                 ''an answer from openai'' [],
       invoked = [(''claude'', \<lparr>backend_calls = 1, sleeps = []\<rparr>),
                  (''openai'', \<lparr>backend_calls = 1, sleeps = []\<rparr>)]\<rparr>"
  have differ: "arg_max_tokens other_args \<noteq> arg_max_tokens cached_args"
    "arg_temperature other_args \<noteq> arg_temperature cached_args"
    "arg_provider_name other_args \<noteq> arg_provider_name cached_args"
    "arg_kwargs other_args \<noteq> arg_kwargs cached_args"
    by (simp_all add: other_args_def cached_args_def plain_args_def)
  have age: "(10 :: int) - 5 \<le> timedelta_hours 168"
    by (simp add: timedelta_hours_def)
  have "arg_use_cache cached_args \<and> arg_use_cache other_args
   \<and> arg_prompt other_args = arg_prompt cached_args
   \<and> arg_task_type other_args = arg_task_type cached_args
   \<and> generate small_stdlib claude_down (LLMManager_init True True True) Map.empty 0 5 cached_args
       = (Inr ''an answer from openai'', LLMManager_init True True True, ?eff)
   \<and> invoked ?eff \<noteq> []
   \<and> (10 :: int) - 5 \<le> timedelta_hours 168"
    using cached_run_when_claude_down age
    by (simp add: other_args_def cached_args_def plain_args_def)
  with cache_ignores_generation_parameters [of cached_args other_args small_stdlib claude_down
      "LLMManager_init True True True" Map.empty 0 5 "''an answer from openai''"
      "LLMManager_init True True True" ?eff 10 all_down "LLMManager_init False True False" 20]
  have "generate small_stdlib all_down (LLMManager_init False True False) (cache ?eff) 10 20 other_args =
       (Inr ''an answer from openai'', LLMManager_init False True False,
        \<lparr>cache = cache ?eff, invoked = []\<rparr>)"
    by blast
  with cached_run_when_claude_down differ age show ?thesis
    by simp
qed

section \<open>The salvage parser\<close>














end
